theory Spec2Isabelle
  imports Complex_Main
begin

text \<open>
  The source file \<open>http-service.js\<close> holds two drafts of the class \<open>HttpService\<close>.
  This theory follows the second (lines 244 to 514), whose callback receives one response
  object next to the error; the response handler of the first (lines 173 to 219) has a
  section of its own. What the class calls and does not define (Node.js and two packages)
  stands as parameters or as datatype constructors.
\<close>

section \<open>JavaScript values and strings\<close>

text \<open>
  A JavaScript string is held as the list of its UTF-8 bytes (\<open>string\<close>), and a
  \<open>Buffer\<close> as the list of its bytes. Header names, media types and HTTP methods are
  ASCII, where the string operations below agree with JavaScript's on UTF-16 code units.
\<close>

type_synonym bytes = string

text \<open>
  A number is an IEEE double: a finite value, which is a rational, or one of the three
  special values. Nothing in the service computes with numbers other than the port and
  the content length, which are naturals; the rest only flows through.
\<close>

datatype js_number = Finite rat | NaN | Infinity | NegInfinity

datatype js_value =
    VUndefined
  | VNull
  | VBool bool
  | VNumber js_number
  | VString string
  | VBuffer bytes
  | VArray "js_value list"
  | VObject "(string \<times> js_value) list"

text \<open>Exceptions carry the \<open>message\<close> property the catch block reads.\<close>

datatype js_exn = SyntaxError string | TypeError string | ReferenceError string

fun exn_message :: "js_exn \<Rightarrow> string" where
  "exn_message (SyntaxError m) = m"
| "exn_message (TypeError m) = m"
| "exn_message (ReferenceError m) = m"

text \<open>The conversion to boolean of \<open>if (v)\<close>, \<open>v && w\<close> and \<open>!v\<close>.\<close>

fun truthy :: "js_value \<Rightarrow> bool" where
  "truthy VUndefined = False"
| "truthy VNull = False"
| "truthy (VBool b) = b"
| "truthy (VNumber (Finite r)) = (r \<noteq> 0)"
| "truthy (VNumber NaN) = False"
| "truthy (VNumber Infinity) = True"
| "truthy (VNumber NegInfinity) = True"
| "truthy (VString s) = (s \<noteq> [])"
| "truthy (VBuffer b) = True"
| "truthy (VArray xs) = True"
| "truthy (VObject kvs) = True"

text \<open>\<open>typeof v\<close>.\<close>

fun typeof :: "js_value \<Rightarrow> string" where
  "typeof VUndefined = ''undefined''"
| "typeof VNull = ''object''"
| "typeof (VBool b) = ''boolean''"
| "typeof (VNumber n) = ''number''"
| "typeof (VString s) = ''string''"
| "typeof (VBuffer b) = ''object''"
| "typeof (VArray xs) = ''object''"
| "typeof (VObject kvs) = ''object''"

text \<open>
  \<open>util.isObject(arg)\<close> is \<open>arg !== null && typeof arg === 'object'\<close>,
  \<open>util.isString(arg)\<close> is \<open>typeof arg === 'string'\<close>.
\<close>

definition isObject :: "js_value \<Rightarrow> bool" where
  "isObject arg = (arg \<noteq> VNull \<and> typeof arg = ''object'')"

definition isString :: "js_value \<Rightarrow> bool" where
  "isString arg = (typeof arg = ''string'')"

fun isBuffer :: "js_value \<Rightarrow> bool" where
  "isBuffer (VBuffer b) = True"
| "isBuffer v = False"

text \<open>
  \<open>s.toLowerCase()\<close> and \<open>s.toUpperCase()\<close>, on the ASCII letters. An upper-case
  letter (codes 65 to 90) and its lower-case form (97 to 122) differ by 32, which is
  bit 5 of the code.
\<close>

definition lower_char :: "char \<Rightarrow> char" where
  "lower_char c =
     (let n = (of_char c :: nat) in
      if 65 \<le> n \<and> n \<le> 90 then
        (case c of Char b0 b1 b2 b3 b4 b5 b6 b7 \<Rightarrow> Char b0 b1 b2 b3 b4 True b6 b7)
      else c)"

definition upper_char :: "char \<Rightarrow> char" where
  "upper_char c =
     (let n = (of_char c :: nat) in
      if 97 \<le> n \<and> n \<le> 122 then
        (case c of Char b0 b1 b2 b3 b4 b5 b6 b7 \<Rightarrow> Char b0 b1 b2 b3 b4 False b6 b7)
      else c)"

definition toLowerCase :: "string \<Rightarrow> string" where
  "toLowerCase s = map lower_char s"

definition toUpperCase :: "string \<Rightarrow> string" where
  "toUpperCase s = map upper_char s"

text \<open>\<open>s.indexOf(c)\<close> for a one-character needle: the first position, or -1.\<close>

fun indexOf :: "string \<Rightarrow> char \<Rightarrow> int" where
  "indexOf [] c = -1"
| "indexOf (x # xs) c =
     (if x = c then 0 else (let i = indexOf xs c in if i < 0 then -1 else i + 1))"

text \<open>\<open>s.substring(0, n)\<close> for \<open>0 \<le> n\<close>; a bound past the end is clamped.\<close>

definition substring0 :: "string \<Rightarrow> int \<Rightarrow> string" where
  "substring0 s n = take (nat n) s"

definition startsWith :: "string \<Rightarrow> string \<Rightarrow> bool" where
  "startsWith s p = (take (length p) s = p)"

definition endsWith :: "string \<Rightarrow> string \<Rightarrow> bool" where
  "endsWith s p = (length p \<le> length s \<and> drop (length s - length p) s = p)"

section \<open>Initialization\<close>

definition JSON_MEDIA_TYPE :: string where
  "JSON_MEDIA_TYPE = ''application/json''"

definition FORM_MEDIA_TYPE :: string where
  "FORM_MEDIA_TYPE = ''application/x-www-form-urlencoded''"

definition CONTENT_TYPE_HEADER :: string where
  "CONTENT_TYPE_HEADER = ''content-type''"

definition CONTENT_LENGTH_HEADER :: string where
  "CONTENT_LENGTH_HEADER = ''content-length''"

section \<open>Private functions\<close>

text \<open>
  An object used as a mapping is the list of its own enumerable properties in
  \<open>Object.keys\<close> order. \<open>headerValue\<close> returns the value under the first key that
  is the name up to case, and \<open>None\<close> for the source's \<open>null\<close>.
\<close>

fun headerValue :: "(string \<times> 'v) list \<Rightarrow> string \<Rightarrow> 'v option" where
  "headerValue [] name = None"
| "headerValue ((key, v) # rest) name =
     (if toLowerCase key = name then Some v else headerValue rest name)"

text \<open>
  \<open>removeParams(value)\<close>, on the value of a response header: \<open>null\<close> or a string.
  The empty string is falsy, and the cut is made only when \<open>semi > 0\<close>.
\<close>

definition removeParams :: "string option \<Rightarrow> string option" where
  "removeParams value =
     (case value of
        None \<Rightarrow> None
      | Some v \<Rightarrow>
          if v \<noteq> [] then
            (let semi = indexOf v CHR '';'' in
             if semi > 0 then Some (substring0 v semi) else Some v)
          else Some v)"

text \<open>
  \<open>String(n)\<close> for a natural number, as a template string prints the port.
\<close>

fun Number_toString :: "nat \<Rightarrow> string" where
  "Number_toString n =
     (if n < 10 then [''0123456789'' ! n]
      else Number_toString (n div 10) @ [''0123456789'' ! (n mod 10)])"

declare Number_toString.simps [simp del]

text \<open>
  A value that is a string or \<open>null\<close> (\<open>None\<close>), as it prints in a template string
  and in a concatenation.
\<close>

fun String_of :: "string option \<Rightarrow> string" where
  "String_of None = ''null''"
| "String_of (Some s) = s"

section \<open>Collaborators\<close>

text \<open>
  The value of \<open>url.parse(uri)\<close>, in the four properties the constructor reads; each is a
  string or \<open>null\<close>.
\<close>

record parsed_url =
  url_protocol :: "string option"
  url_hostname :: "string option"
  url_pathname :: "string option"
  url_port :: "string option"

text \<open>
  The functions of Node.js the service calls and this development does not look into.
  \<open>JSON_parse\<close> returns the exception it throws as \<open>Inl\<close>. The two serializers are
  called on objects that are data (no accessor, no cycle), where they return a string.
\<close>

record platform =
  url_parse :: "string \<Rightarrow> parsed_url"
  JSON_parse :: "string \<Rightarrow> js_exn + js_value"
  JSON_stringify :: "js_value \<Rightarrow> string"
  querystring_stringify :: "js_value \<Rightarrow> string"

text \<open>
  The package \<open>@be/http-status\<close>: of \<open>new HttpStatus(code)\<close> the service reads the
  property \<open>noContent\<close> and the method \<open>isError()\<close>, and it calls \<open>error(message)\<close>,
  whose value is \<open>StatusError code message\<close> below.
\<close>

record http_status =
  noContent :: "nat \<Rightarrow> bool"
  isError :: "nat \<Rightarrow> bool"

text \<open>
  \<open>Buffer.concat(chunks)\<close>, \<open>buffer.toString()\<close> and \<open>Buffer.byteLength(string)\<close>.
  With a string held as its UTF-8 bytes, decoding is the identity and the byte length is
  the length. Bytes that are not well-formed UTF-8, which Node.js decodes to U+FFFD, are
  outside the model.
\<close>

definition Buffer_concat :: "bytes list \<Rightarrow> bytes" where
  "Buffer_concat chunks = concat chunks"

definition Buffer_toString :: "bytes \<Rightarrow> string" where
  "Buffer_toString b = b"

definition Buffer_byteLength :: "string \<Rightarrow> nat" where
  "Buffer_byteLength s = length s"

section \<open>The service and its requests\<close>

type_synonym addr = nat

type_synonym headers_object = "(string \<times> js_value) list"

text \<open>
  The fields of an \<open>HttpService\<close> instance. \<open>hostname\<close> and \<open>pathname\<close> are what
  \<open>url.parse\<close> gave: a string or \<open>null\<close>.
\<close>

record service =
  protocol :: string
  hostname :: "string option"
  pathname :: "string option"
  port :: nat
  options :: "(string \<times> js_value) list"

text \<open>
  The \<open>options\<close> object handed to \<open>client.request\<close>: the six properties that
  \<open>request\<close> sets, and under \<open>opt_more\<close> the properties of \<open>this.options\<close> they do not
  override. \<open>opt_headers\<close> is a reference to the headers object.
\<close>

record request_options =
  opt_method :: string
  opt_protocol :: string
  opt_host :: "string option"
  opt_port :: nat
  opt_path :: string
  opt_headers :: addr
  opt_more :: "(string \<times> js_value) list"

text \<open>
  \<open>_makeMessage(opt, txt)\<close>, with \<open>txt\<close> a string or \<open>null\<close>; the empty string is
  falsy as \<open>null\<close> is.
\<close>

definition makeMessage :: "request_options \<Rightarrow> string option \<Rightarrow> string" where
  "makeMessage opt txt =
     (let msg = ''['' @ opt_method opt @ '' '' @ opt_protocol opt @ ''//'' @
                String_of (opt_host opt) @ '':'' @ Number_toString (opt_port opt) @
                opt_path opt @ '']''
      in case txt of
           None \<Rightarrow> msg
         | Some t \<Rightarrow> if t \<noteq> [] then msg @ '' '' @ t else msg)"

text \<open>
  \<open>body.toString()\<close> on the buffered body, which is \<open>null\<close> (\<open>None\<close>) or a
  \<open>Buffer\<close>. The wording of the \<open>TypeError\<close> is V8's.
\<close>

definition apostrophe :: string where
  "apostrophe = [CHR 0x27]"

definition cannot_read :: "string \<Rightarrow> string \<Rightarrow> js_exn" where
  "cannot_read name what =
     TypeError (''Cannot read property '' @ apostrophe @ name @ apostrophe @ '' of '' @ what)"

fun body_toString :: "bytes option \<Rightarrow> js_exn + string" where
  "body_toString None = Inl (cannot_read ''toString'' ''null'')"
| "body_toString (Some b) = Inr (Buffer_toString b)"

fun body_value :: "bytes option \<Rightarrow> js_value" where
  "body_value None = VNull"
| "body_value (Some b) = VBuffer b"

text \<open>\<open>_parseBody(type, body)\<close>; \<open>type\<close> is a string or \<open>null\<close>.\<close>

definition parseBody :: "platform \<Rightarrow> string option \<Rightarrow> bytes option \<Rightarrow> js_exn + js_value" where
  "parseBody P type body =
     (if type = Some JSON_MEDIA_TYPE then
        (case body_toString body of
           Inl e \<Rightarrow> Inl e
         | Inr s \<Rightarrow> JSON_parse P s)
      else if (case type of
                 None \<Rightarrow> False
               | Some t \<Rightarrow> t \<noteq> [] \<and> (startsWith t ''text/'' \<or> endsWith t ''+xml'')) then
        (case body_toString body of
           Inl e \<Rightarrow> Inl e
         | Inr s \<Rightarrow> Inr (VString s))
      else Inr (body_value body))"

text \<open>
  \<open>v.name\<close> and \<open>v[name]\<close>: a \<open>TypeError\<close> on \<open>null\<close> and \<open>undefined\<close>, the own
  property of an object, and \<open>undefined\<close> elsewhere (none of the names looked up below
  is a property that strings, numbers, booleans, arrays or buffers inherit).
\<close>

fun getProp :: "js_value \<Rightarrow> string \<Rightarrow> js_exn + js_value" where
  "getProp VNull name = Inl (cannot_read name ''null'')"
| "getProp VUndefined name = Inl (cannot_read name ''undefined'')"
| "getProp (VObject kvs) name =
     (case map_of kvs name of None \<Rightarrow> Inr VUndefined | Some v \<Rightarrow> Inr v)"
| "getProp v name = Inr VUndefined"

text \<open>\<open>s.split(/\r?\n/)[0]\<close>: the text before the first line break.\<close>

fun first_line :: "string \<Rightarrow> string" where
  "first_line [] = []"
| "first_line (c # cs) =
     (if c = CHR 0x0A then []
      else if c = CHR 0x0D \<and> take 1 cs = [CHR 0x0A] then []
      else c # first_line cs)"

text \<open>
  \<open>callback(httpError(code, options, message))\<close> inside \<open>_parseError\<close>. The function
  is declared at the top level of the module, where no \<open>callback\<close> is in scope:
  evaluating the callee throws, before the argument is evaluated.
\<close>

definition callback_unbound :: js_exn where
  "callback_unbound = ReferenceError ''callback is not defined''"

text \<open>\<open>v && v.message\<close>: \<open>v\<close> itself when it is falsy.\<close>

definition and_message :: "js_value \<Rightarrow> js_exn + js_value" where
  "and_message v = (if truthy v then getProp v ''message'' else Inr v)"

text \<open>
  \<open>_parseError(type, body)\<close> returns \<open>null\<close> (\<open>Inr None\<close>) or throws. It is
  written here as its three \<open>if\<close> statements, the last first. Each
  \<open>let message = ...\<close> is evaluated before the call that throws.
\<close>

definition error_description_message :: "js_value \<Rightarrow> js_exn + string" where
  "error_description_message d =
     (case d of
        VString s \<Rightarrow> Inr (first_line s)
      | _ \<Rightarrow> Inl (TypeError ''body.error_description.split is not a function''))"

definition parseError_odata :: "js_value \<Rightarrow> js_exn + string option" where
  "parseError_odata body =
     (case getProp body ''odata.error'' of
        Inl e \<Rightarrow> Inl e
      | Inr oerr \<Rightarrow>
          (case and_message oerr of
             Inl e \<Rightarrow> Inl e
           | Inr om \<Rightarrow>
               if truthy om then
                 (case getProp om ''value'' of
                    Inl e \<Rightarrow> Inl e
                  | Inr message \<Rightarrow> Inl callback_unbound)
               else Inr None))"

definition parseError_error :: "js_value \<Rightarrow> js_exn + string option" where
  "parseError_error body =
     (case getProp body ''error'' of
        Inl e \<Rightarrow> Inl e
      | Inr err \<Rightarrow>
          (case and_message err of
             Inl e \<Rightarrow> Inl e
           | Inr message \<Rightarrow>
               if truthy message then Inl callback_unbound
               else parseError_odata body))"

definition parseError :: "string option \<Rightarrow> js_value \<Rightarrow> js_exn + string option" where
  "parseError type body =
     (if type \<noteq> Some JSON_MEDIA_TYPE then Inr None
      else
        (case getProp body ''error_description'' of
           Inl e \<Rightarrow> Inl e
         | Inr d \<Rightarrow>
             if truthy d then
               (case error_description_message d of
                  Inl e \<Rightarrow> Inl e
                | Inr message \<Rightarrow> Inl callback_unbound)
             else parseError_error body))"

section \<open>The constructor\<close>

text \<open>
  \<open>parseInt(parsed.port)\<close>, where \<open>parsed.port\<close> is \<open>null\<close> or a string of decimal
  digits (\<open>url.parse\<close> yields nothing else): \<open>NaN\<close>, here \<open>None\<close>, when no digit
  leads the string, and else the number that the leading digits write. The model's number
  is exact; the source's is a double, which is exact below \<open>2 ^ 53\<close>.
\<close>

definition is_digit :: "char \<Rightarrow> bool" where
  "is_digit c = (let n = (of_char c :: nat) in 48 \<le> n \<and> n \<le> 57)"

definition digit_value :: "char \<Rightarrow> nat" where
  "digit_value c = of_char c - 48"

fun digits_value :: "nat \<Rightarrow> string \<Rightarrow> nat" where
  "digits_value acc [] = acc"
| "digits_value acc (c # cs) =
     (if is_digit c then digits_value (acc * 10 + digit_value c) cs else acc)"

definition parseInt :: "string option \<Rightarrow> nat option" where
  "parseInt v =
     (case v of
        None \<Rightarrow> None
      | Some s \<Rightarrow>
          (case s of
             [] \<Rightarrow> None
           | c # cs \<Rightarrow> if is_digit c then Some (digits_value 0 s) else None))"

datatype uri_error = URIError string

text \<open>
  \<open>new HttpService(uri, options)\<close>. \<open>!this.port\<close> holds of \<open>NaN\<close> and of \<open>0\<close>.
  \<open>options || {}\<close> is the list of the properties of \<open>options\<close>, empty when it is
  absent.
\<close>

definition HttpService :: "platform \<Rightarrow> string \<Rightarrow> (string \<times> js_value) list \<Rightarrow> uri_error + service" where
  "HttpService P uri opts =
     (let parsed = url_parse P uri in
      if url_protocol parsed \<noteq> Some ''http:'' \<and> url_protocol parsed \<noteq> Some ''https:'' then
        Inl (URIError (apostrophe @ uri @ apostrophe @
                       '' invalid protocol (expected http or https)''))
      else
        (let proto = String_of (url_protocol parsed);
             p = parseInt (url_port parsed)
         in Inr \<lparr>protocol = proto,
                 hostname = url_hostname parsed,
                 pathname = url_pathname parsed,
                 port = (case p of
                           None \<Rightarrow> if proto = ''http:'' then 80 else 443
                         | Some n \<Rightarrow>
                             if n = 0 then (if proto = ''http:'' then 80 else 443) else n),
                 options = opts\<rparr>))"

section \<open>The request method\<close>

text \<open>
  Header objects live in a store, so that the object the caller passes and the object
  \<open>request\<close> writes to are the same cell. \<open>fresh\<close> is the next unused address:
  \<open>{}\<close> allocates there.
\<close>

record store =
  objs :: "addr \<Rightarrow> headers_object"
  fresh :: addr

definition new_object :: "store \<Rightarrow> store \<times> addr" where
  "new_object st = (st\<lparr>objs := (objs st)(fresh st := []), fresh := Suc (fresh st)\<rparr>, fresh st)"

text \<open>
  \<open>obj[key] = v\<close>: an own property keeps its place, a new one goes last.
\<close>

fun set_property :: "headers_object \<Rightarrow> string \<Rightarrow> js_value \<Rightarrow> headers_object" where
  "set_property [] key v = [(key, v)]"
| "set_property ((k, w) # rest) key v =
     (if k = key then (k, v) # rest else (k, w) # set_property rest key v)"

text \<open>The value \<open>_headerValue\<close> returns on a caller's headers: \<open>null\<close> when no key matches.\<close>

fun null_or :: "js_value option \<Rightarrow> js_value" where
  "null_or None = VNull"
| "null_or (Some v) = v"

text \<open>
  The two \<open>TypeError\<close>s that \<open>request\<close> throws, with the value that their message
  prints: the declared content type, and \<open>typeof data\<close>.
\<close>

datatype request_error = Unsuported_media_type js_value | Expected_string_or_Buffer string

text \<open>
  What the method does to the transport, in order: \<open>client.request(options, ...)\<close>, with
  the headers object as it stands at the call, \<open>request.write(data)\<close> and
  \<open>request.end()\<close>.
\<close>

datatype io_event =
    Client_request request_options headers_object
  | Request_write js_value
  | Request_end

record run =
  store_after :: store
  calls :: "io_event list"
  thrown :: "request_error option"

text \<open>
  The \<open>switch\<close> on the declared content type of an object that is no \<open>Buffer\<close>:
  the headers and the data after it, or the exception of the \<open>default\<close> branch.
\<close>

definition serialize :: "platform \<Rightarrow> headers_object \<Rightarrow> js_value \<Rightarrow> request_error + headers_object \<times> js_value" where
  "serialize P hs data =
     (if isObject data \<and> \<not> isBuffer data then
        (let type = null_or (headerValue hs CONTENT_TYPE_HEADER) in
         if type = VString JSON_MEDIA_TYPE then Inr (hs, VString (JSON_stringify P data))
         else if type = VString FORM_MEDIA_TYPE then
           Inr (hs, VString (querystring_stringify P data))
         else if type = VNull then
           Inr (set_property hs CONTENT_TYPE_HEADER (VString JSON_MEDIA_TYPE),
                VString (JSON_stringify P data))
         else Inl (Unsuported_media_type type))
      else Inr (hs, data))"

text \<open>
  \<open>if (util.isString(data) && _headerValue(headers, CONTENT_LENGTH_HEADER) === null)\<close>.
\<close>

definition set_content_length :: "headers_object \<Rightarrow> js_value \<Rightarrow> headers_object" where
  "set_content_length hs data =
     (case data of
        VString s \<Rightarrow>
          if null_or (headerValue hs CONTENT_LENGTH_HEADER) = VNull then
            set_property hs CONTENT_LENGTH_HEADER
              (VNumber (Finite (of_nat (Buffer_byteLength s))))
          else hs
      | _ \<Rightarrow> hs)"

definition overridden :: "string list" where
  "overridden = [''method'', ''protocol'', ''host'', ''port'', ''path'', ''headers'']"

definition make_options :: "service \<Rightarrow> string \<Rightarrow> string option \<Rightarrow> addr \<Rightarrow> request_options" where
  "make_options this method path h =
     \<lparr>opt_method = method,
      opt_protocol = protocol this,
      opt_host = hostname this,
      opt_port = port this,
      opt_path = String_of (pathname this) @ (case path of None \<Rightarrow> [] | Some p \<Rightarrow> p),
      opt_headers = h,
      opt_more = filter (\<lambda>kv. fst kv \<notin> set overridden) (options this)\<rparr>"

text \<open>
  \<open>request(method, path, headers, data, callback)\<close> up to its return: the store, the
  calls to the transport and the exception thrown, if any. \<open>headers\<close> is a reference to
  the caller's object, or \<open>None\<close> when the caller passes \<open>null\<close>; \<open>path\<close> likewise.
  The calls to the transport are taken to return: an exception of \<open>client.request\<close>
  itself (on a method or a path it rejects) is outside the model.
\<close>

definition request :: "platform \<Rightarrow> service \<Rightarrow> store \<Rightarrow> string \<Rightarrow> string option \<Rightarrow> addr option \<Rightarrow> js_value \<Rightarrow> run" where
  "request P this st method path headers data =
     (let method' = toUpperCase method;
          alloc = (case headers of Some a \<Rightarrow> (st, a) | None \<Rightarrow> new_object st);
          st1 = fst alloc;
          h = snd alloc
      in case (if data \<noteq> VNull then serialize P (objs st1 h) data
               else Inr (objs st1 h, data)) of
           Inl e \<Rightarrow> \<lparr>store_after = st1, calls = [], thrown = Some e\<rparr>
         | Inr (hs, data1) \<Rightarrow>
             (let hs1 = (if data \<noteq> VNull then set_content_length hs data1 else hs);
                  st2 = st1\<lparr>objs := (objs st1)(h := hs1)\<rparr>;
                  sent = [Client_request (make_options this method' path h) hs1]
              in if data1 \<noteq> VNull then
                   (if isString data1 \<or> isBuffer data1 then
                      \<lparr>store_after = st2, calls = sent @ [Request_write data1, Request_end],
                       thrown = None\<rparr>
                    else
                      \<lparr>store_after = st2, calls = sent,
                       thrown = Some (Expected_string_or_Buffer (typeof data1))\<rparr>)
                 else \<lparr>store_after = st2, calls = sent @ [Request_end], thrown = None\<rparr>))"

section \<open>The response\<close>

text \<open>
  The first argument of the callback: \<open>new Error(message)\<close>, the value of
  \<open>status.error(message)\<close> for the status code, or the error of the transport.
\<close>

datatype failure = Error string | StatusError nat string | TransportError string

text \<open>The second argument: \<open>{status, headers, type, body}\<close>.\<close>

record response =
  res_status :: nat
  res_headers :: "(string \<times> string) list"
  res_type :: "string option"
  res_body :: js_value

datatype callback_args = Callback "failure option" "response option"

text \<open>
  The handler of the response's \<open>end\<close> event, with the options of the request, the
  status code and headers of the response and the chunks received. When \<open>_parseBody\<close>
  throws, \<open>body\<close> keeps the value it had.
\<close>

definition on_end :: "platform \<Rightarrow> http_status \<Rightarrow> request_options \<Rightarrow> nat \<Rightarrow> (string \<times> string) list \<Rightarrow> bytes list \<Rightarrow> callback_args" where
  "on_end P S opts statusCode headers chunks =
     (let type = removeParams (headerValue headers CONTENT_TYPE_HEADER);
          body = (if noContent S statusCode then None else Some (Buffer_concat chunks));
          parse_failed =
            (\<lambda>e. Some (Error (makeMessage opts (Some (''Parse Error: '' @ exn_message e)))));
          result =
            (case parseBody P type body of
               Inl e \<Rightarrow> (parse_failed e, body_value body)
             | Inr parsed \<Rightarrow>
                 if isError S statusCode then
                   (case parseError type parsed of
                      Inl e \<Rightarrow> (parse_failed e, parsed)
                    | Inr txt \<Rightarrow>
                        (Some (StatusError statusCode (makeMessage opts txt)), parsed))
                 else (None, parsed))
      in Callback (fst result)
           (Some \<lparr>res_status = statusCode, res_headers = headers, res_type = type,
                  res_body = snd result\<rparr>))"

text \<open>The handler of the request's \<open>error\<close> event: \<open>callback(err)\<close>.\<close>

definition on_error :: "failure \<Rightarrow> callback_args" where
  "on_error err = Callback (Some err) None"

section \<open>The response handler of the first draft\<close>

text \<open>
  The first draft (lines 1 to 243) calls \<open>callback(err)\<close> on a failure and
  \<open>callback(null, body, type, headers)\<close> on a success. Its constructor, its
  \<open>request\<close> up to the transport call, \<open>headerValue\<close> and \<open>removeParams\<close> are
  those of the second draft. Its handler of \<open>end\<close> (lines 177 to 218) follows.

  \<open>httpError(code, opt, msg)\<close> is \<open>new HttpError(code, ...)\<close> of the package
  \<open>@be/http-error\<close>, with the message \<open>_makeMessage\<close> would give followed by the
  text of \<open>msg\<close>; \<open>msg\<close> is kept as the value it is.
\<close>

datatype http_error = HttpError nat string js_value

definition httpError :: "nat \<Rightarrow> request_options \<Rightarrow> js_value \<Rightarrow> http_error" where
  "httpError code opt msg = HttpError code (makeMessage opt None) msg"

text \<open>
  What the handler does: one call of the callback, or an exception that leaves the handler
  (it has no \<open>try\<close> around these places).
\<close>

datatype outcome1 =
    Failed http_error
  | Succeeded js_value "string option" "(string \<times> string) list"
  | Uncaught js_exn

text \<open>The end of the handler, from \<open>let success = ...\<close> on.\<close>

definition complete1 :: "request_options \<Rightarrow> nat \<Rightarrow> (string \<times> string) list \<Rightarrow> string option \<Rightarrow> js_value \<Rightarrow> outcome1" where
  "complete1 opts code headers type body =
     (if code = 200 \<or> code = 201 then Succeeded body type headers
      else Failed (httpError code opts
             (VString ''The request was not successfully completed.'')))"

text \<open>The three \<open>if\<close> statements on the parsed JSON body, the last first.\<close>

definition json_odata1 :: "request_options \<Rightarrow> nat \<Rightarrow> (string \<times> string) list \<Rightarrow> string option \<Rightarrow> js_value \<Rightarrow> outcome1" where
  "json_odata1 opts code headers type body =
     (case getProp body ''odata.error'' of
        Inl e \<Rightarrow> Uncaught e
      | Inr oerr \<Rightarrow>
          (case and_message oerr of
             Inl e \<Rightarrow> Uncaught e
           | Inr om \<Rightarrow>
               if truthy om then
                 (case getProp om ''value'' of
                    Inl e \<Rightarrow> Uncaught e
                  | Inr v \<Rightarrow> Failed (httpError code opts v))
               else complete1 opts code headers type body))"

definition json_error1 :: "request_options \<Rightarrow> nat \<Rightarrow> (string \<times> string) list \<Rightarrow> string option \<Rightarrow> js_value \<Rightarrow> outcome1" where
  "json_error1 opts code headers type body =
     (case getProp body ''error'' of
        Inl e \<Rightarrow> Uncaught e
      | Inr err \<Rightarrow>
          (case and_message err of
             Inl e \<Rightarrow> Uncaught e
           | Inr m \<Rightarrow>
               if truthy m then Failed (httpError code opts m)
               else json_odata1 opts code headers type body))"

definition json_body1 :: "request_options \<Rightarrow> nat \<Rightarrow> (string \<times> string) list \<Rightarrow> string option \<Rightarrow> js_value \<Rightarrow> outcome1" where
  "json_body1 opts code headers type body =
     (case getProp body ''error_description'' of
        Inl e \<Rightarrow> Uncaught e
      | Inr d \<Rightarrow>
          if truthy d then
            (case error_description_message d of
               Inl e \<Rightarrow> Uncaught e
             | Inr message \<Rightarrow> Failed (httpError code opts (VString message)))
          else json_error1 opts code headers type body)"

definition on_end1 :: "platform \<Rightarrow> request_options \<Rightarrow> nat \<Rightarrow> (string \<times> string) list \<Rightarrow> bytes list \<Rightarrow> outcome1" where
  "on_end1 P opts statusCode headers chunks =
     (if statusCode = 204 then Succeeded VNull None headers
      else
        (let code = statusCode;
             type = removeParams (headerValue headers CONTENT_TYPE_HEADER);
             body = Buffer_concat chunks
         in if opt_method opts = ''HEAD'' then complete1 opts code headers type VNull
            else if type = Some ''application/json'' then
              (let text = Buffer_toString body in
               if text = [] then Failed (httpError 502 opts (VString ''Empty Response''))
               else
                 (case JSON_parse P text of
                    Inl e \<Rightarrow> Failed (httpError 502 opts (VString (exn_message e)))
                  | Inr parsed \<Rightarrow> json_body1 opts code headers type parsed))
            else
              (case type of
                 None \<Rightarrow> Uncaught (cannot_read ''startsWith'' ''null'')
               | Some t \<Rightarrow>
                   if startsWith t ''text/'' \<or> endsWith t ''+xml'' then
                     complete1 opts code headers type (VString (Buffer_toString body))
                   else complete1 opts code headers type (VBuffer body))))"

section \<open>Collaborators of the examples\<close>

text \<open>
  The theorems below hold for every platform and every status classification. Their
  examples run on the following ones, which answer as Node.js does at the inputs of the
  examples and are no model of it elsewhere: \<open>url.parse\<close> at three URIs (any other
  string is answered as the empty one, with no parts), \<open>JSON.parse\<close> at the empty
  text and at one document (any other text is answered as the empty one),
  and the two serializers at the object \<open>{a: 1}\<close>.
\<close>

definition example_urls :: "(string \<times> parsed_url) list" where
  "example_urls =
     [(''http://example.com:0'',
       \<lparr>url_protocol = Some ''http:'', url_hostname = Some ''example.com'',
        url_pathname = Some ''/'', url_port = Some ''0''\<rparr>),
      (''https://example.com:9000'',
       \<lparr>url_protocol = Some ''https:'', url_hostname = Some ''example.com'',
        url_pathname = Some ''/'', url_port = Some ''9000''\<rparr>),
      (''ftp://example.com'',
       \<lparr>url_protocol = Some ''ftp:'', url_hostname = Some ''example.com'',
        url_pathname = Some ''/'', url_port = None\<rparr>)]"

definition bad_token_text :: string where
  \<open>bad_token_text = ''{"error":{"message":"bad token"}}''\<close>

definition bad_token_body :: js_value where
  "bad_token_body = VObject [(''error'', VObject [(''message'', VString ''bad token'')])]"

definition a_is_1 :: js_value where
  "a_is_1 = VObject [(''a'', VNumber (Finite 1))]"

definition example_platform :: platform where
  \<open>example_platform =
     \<lparr>url_parse =
        (\<lambda>uri. case map_of example_urls uri of
                  Some parsed \<Rightarrow> parsed
                | None \<Rightarrow> \<lparr>url_protocol = None, url_hostname = None,
                            url_pathname = None, url_port = None\<rparr>),
      JSON_parse =
        (\<lambda>text. if text = bad_token_text then Inr bad_token_body
                 else Inl (SyntaxError ''Unexpected end of JSON input'')),
      JSON_stringify = (\<lambda>v. if v = a_is_1 then ''{"a":1}'' else ''{}''),
      querystring_stringify = (\<lambda>v. if v = a_is_1 then ''a=1'' else [])\<rparr>\<close>

text \<open>
  A classification: 204 is the status with no content, and the client and server error
  statuses are the errors (the repository's test expects an error for status 418).
\<close>

definition example_status :: http_status where
  "example_status = \<lparr>noContent = (\<lambda>code. code = 204), isError = (\<lambda>code. 400 \<le> code)\<rparr>"

definition example_service :: service where
  "example_service =
     \<lparr>protocol = ''http:'', hostname = Some ''example.com'', pathname = Some ''/'',
      port = 80, options = []\<rparr>"

definition example_options :: request_options where
  "example_options = make_options example_service ''GET'' (Some ''status'') 0"

definition empty_store :: store where
  "empty_store = \<lparr>objs = (\<lambda>a. []), fresh = 0\<rparr>"

section \<open>Content types\<close>

lemma indexOf_takeWhile:
  "indexOf v c = (if c \<in> set v then int (length (takeWhile (\<lambda>x. x \<noteq> c) v)) else -1)"
  by (induction v) (auto simp: Let_def)

lemma take_length_takeWhile: "take (length (takeWhile Q v)) v = takeWhile Q v"
  by (induction v) auto

lemma removeParams_cut:
  "removeParams (Some v) =
     Some (let t = takeWhile (\<lambda>c. c \<noteq> CHR '';'') v in if t = [] then v else t)"
proof (cases "CHR '';'' \<in> set v")
  case True
  then have "v \<noteq> []" by auto
  with True show ?thesis
    by (simp add: removeParams_def indexOf_takeWhile substring0_def Let_def
        take_length_takeWhile)
next
  case False
  then have tw: "takeWhile (\<lambda>c. c \<noteq> CHR '';'') v = v"
    by (auto simp: takeWhile_eq_all_conv)
  show ?thesis
    unfolding tw Let_def using False
    by (simp add: removeParams_def indexOf_takeWhile)
qed

text \<open>
  C9, as the code has it. \<open>removeParams\<close> returns the text before the first \<open>;\<close> when
  that text is not empty, and the whole string otherwise: when it has no \<open>;\<close>, and also
  when it begins with one (the cut is guarded by \<open>semi > 0\<close>). So
  \<open>text/html; charset=utf-8\<close> gives \<open>text/html\<close>, and \<open>text/html\<close> is unchanged.
\<close>

theorem removeParams_cuts_after_nonempty_type:
  "removeParams (Some v) =
     Some (let t = takeWhile (\<lambda>c. c \<noteq> CHR '';'') v in if t = [] then v else t)
   \<and> removeParams (Some ''text/html; charset=utf-8'') = Some ''text/html''
   \<and> removeParams (Some ''text/html'') = Some ''text/html''"
  by (simp add: removeParams_cut)

text \<open>
  C9 as stated fails on a string that begins with \<open>;\<close>: everything from the first
  \<open>;\<close> onward is the whole string, and nothing of it is stripped.
\<close>

theorem removeParams_leading_semicolon_kept:
  "removeParams (Some '';charset=utf-8'') = Some '';charset=utf-8''
   \<and> takeWhile (\<lambda>c. c \<noteq> CHR '';'') '';charset=utf-8'' = []"
  by (simp add: removeParams_def)

section \<open>The constructor's port\<close>

lemma decimal_digit:
  "\<forall>d\<in>{0..<10::nat}. is_digit (''0123456789'' ! d) \<and> digit_value (''0123456789'' ! d) = d"
  by code_simp

lemma decimal_digit_is: "d < 10 \<Longrightarrow> is_digit (''0123456789'' ! d)"
  using decimal_digit by auto

lemma decimal_digit_value: "d < 10 \<Longrightarrow> digit_value (''0123456789'' ! d) = d"
  using decimal_digit by auto

lemma Number_toString_digits: "\<forall>c\<in>set (Number_toString n). is_digit c"
proof (induction n rule: Number_toString.induct)
  case (1 n)
  show ?case
  proof (cases "n < 10")
    case True
    then show ?thesis
      by (subst Number_toString.simps) (simp add: decimal_digit_is)
  next
    case False
    with 1 show ?thesis
      by (subst Number_toString.simps) (simp add: decimal_digit_is)
  qed
qed

lemma Number_toString_nonempty: "Number_toString n \<noteq> []"
  by (subst Number_toString.simps) simp

lemma digits_value_append:
  "\<forall>c\<in>set xs. is_digit c \<Longrightarrow>
   digits_value acc (xs @ ys) = digits_value (digits_value acc xs) ys"
  by (induction xs arbitrary: acc) auto

lemma digits_value_Number_toString: "digits_value 0 (Number_toString n) = n"
proof (induction n rule: Number_toString.induct)
  case (1 n)
  show ?case
  proof (cases "n < 10")
    case True
    then show ?thesis
      by (subst Number_toString.simps) (simp add: decimal_digit_is decimal_digit_value)
  next
    case False
    with 1 have "digits_value 0 (Number_toString (n div 10)) = n div 10" by simp
    with False show ?thesis
      by (subst Number_toString.simps)
        (simp add: digits_value_append Number_toString_digits decimal_digit_is
          decimal_digit_value)
  qed
qed

text \<open>\<open>parseInt\<close> reads a number back from its decimal form.\<close>

lemma parseInt_Number_toString: "parseInt (Some (Number_toString n)) = Some n"
proof -
  obtain c cs where s: "Number_toString n = c # cs"
    using Number_toString_nonempty [of n] by (cases "Number_toString n") auto
  moreover have "is_digit c"
    using Number_toString_digits [of n] s by simp
  ultimately show ?thesis
    using digits_value_Number_toString [of n] by (simp add: parseInt_def)
qed

lemma colon_http: "(s @ '':'' = ''http:'') = (s = ''http'')"
proof -
  have "''http:'' = ''http'' @ '':''" by simp
  then show ?thesis by (simp only: append_same_eq)
qed

lemma colon_https: "(s @ '':'' = ''https:'') = (s = ''https'')"
proof -
  have "''https:'' = ''https'' @ '':''" by simp
  then show ?thesis by (simp only: append_same_eq)
qed

lemma HttpService_protocol:
  assumes "url_protocol (url_parse P uri) = Some (s @ '':'')"
  shows "HttpService P uri opts =
     (if s = ''http'' \<or> s = ''https'' then
        Inr \<lparr>protocol = s @ '':'',
             hostname = url_hostname (url_parse P uri),
             pathname = url_pathname (url_parse P uri),
             port = (case parseInt (url_port (url_parse P uri)) of
                       None \<Rightarrow> if s = ''http'' then 80 else 443
                     | Some n \<Rightarrow> if n = 0 then (if s = ''http'' then 80 else 443) else n),
             options = opts\<rparr>
      else Inl (URIError (apostrophe @ uri @ apostrophe @
                          '' invalid protocol (expected http or https)'')))"
  unfolding HttpService_def Let_def assms
  by (simp only: option.inject colon_http colon_https String_of.simps de_Morgan_disj
      if_not_P [symmetric] split: if_split) simp

text \<open>
  C7, as the code has it. Take a URI \<open>scheme://host[:port][/path]\<close>: \<open>url.parse\<close>
  gives the scheme in lower case with a colon as the protocol, and the digits of the port,
  or \<open>null\<close> when the URI has none. Let the port, when there is one, be the decimal form
  of \<open>n\<close>, below \<open>2 ^ 53\<close> so that \<open>parseInt\<close> is exact. Then construction fails
  exactly when the scheme is neither http nor https, and otherwise the port of the service
  is \<open>n\<close> when the URI has a port and it is not zero, and the default of the scheme, 80
  or 443, when the URI has no port or the port zero.
\<close>

theorem constructor_scheme_and_port:
  assumes proto: "url_protocol (url_parse P uri) = Some (toLowerCase scheme @ '':'')"
    and prt: "url_port (url_parse P uri) = map_option Number_toString uport"
    and exact: "\<forall>n. uport = Some n \<longrightarrow> n < 2 ^ 53"
  shows "HttpService P uri opts =
     (let default = (if toLowerCase scheme = ''http'' then 80 else 443) in
      if toLowerCase scheme = ''http'' \<or> toLowerCase scheme = ''https'' then
        Inr \<lparr>protocol = toLowerCase scheme @ '':'',
             hostname = url_hostname (url_parse P uri),
             pathname = url_pathname (url_parse P uri),
             port = (case uport of
                       None \<Rightarrow> default
                     | Some n \<Rightarrow> if n = 0 then default else n),
             options = opts\<rparr>
      else Inl (URIError (apostrophe @ uri @ apostrophe @
                          '' invalid protocol (expected http or https)'')))"
proof -
  have "parseInt (url_port (url_parse P uri)) = uport"
    unfolding prt
    by (cases uport) (simp add: parseInt_def, simp add: parseInt_Number_toString)
  then show ?thesis
    unfolding HttpService_protocol [OF proto] Let_def by simp
qed

theorem constructor_scheme_and_port_witness:
  "HttpService example_platform ''https://example.com:9000'' [] =
     Inr \<lparr>protocol = ''https:'', hostname = Some ''example.com'', pathname = Some ''/'',
          port = 9000, options = []\<rparr>"
proof -
  have n: "Number_toString 9000 = ''9000''"
    by (simp add: Number_toString.simps)
  have l: "toLowerCase ''https'' = ''https''"
    by (simp add: toLowerCase_def lower_char_def)
  have 1: "url_protocol (url_parse example_platform ''https://example.com:9000'') =
      Some (toLowerCase ''https'' @ '':'')"
    by (simp add: example_platform_def example_urls_def l)
  have 2: "url_port (url_parse example_platform ''https://example.com:9000'') =
      map_option Number_toString (Some 9000)"
    by (simp add: example_platform_def example_urls_def n)
  have 3: "\<forall>n. Some (9000::nat) = Some n \<longrightarrow> n < 2 ^ 53" by simp
  show ?thesis
    using constructor_scheme_and_port [OF 1 2 3, of "[]"]
    by (simp add: l example_platform_def example_urls_def)
qed

text \<open>
  C7 as stated fails on a URI that gives the port zero: the port of the service is then
  the default of the scheme, not the port of the URI.
\<close>

theorem constructor_port_zero_defaults:
  "HttpService example_platform ''http://example.com:0'' [] =
     Inr \<lparr>protocol = ''http:'', hostname = Some ''example.com'', pathname = Some ''/'',
          port = 80, options = []\<rparr>
   \<and> url_port (url_parse example_platform ''http://example.com:0'') = Some ''0''"
  by (simp add: HttpService_def example_platform_def example_urls_def parseInt_def
      is_digit_def digit_value_def)

section \<open>The response handler\<close>

lemma json_type [simp]: "JSON_MEDIA_TYPE \<noteq> []"
  by (simp add: JSON_MEDIA_TYPE_def)

lemma example_message:
  "makeMessage example_options txt =
     (case txt of None \<Rightarrow> ''[GET http://example.com:80/status]''
      | Some t \<Rightarrow> if t \<noteq> [] then ''[GET http://example.com:80/status] '' @ t
                  else ''[GET http://example.com:80/status]'')"
  by (simp add: makeMessage_def example_options_def make_options_def example_service_def
      Number_toString.simps split: option.split)

lemma content_type_json:
  "removeParams (headerValue [(''content-type'', ''application/json'')] CONTENT_TYPE_HEADER) =
     Some JSON_MEDIA_TYPE"
  by (simp add: removeParams_def CONTENT_TYPE_HEADER_def toLowerCase_def lower_char_def
      JSON_MEDIA_TYPE_def)

lemma content_type_text:
  "removeParams (headerValue [(''content-type'', ''text/plain'')] CONTENT_TYPE_HEADER) =
     Some ''text/plain''"
  by (simp add: removeParams_def CONTENT_TYPE_HEADER_def toLowerCase_def lower_char_def)

lemma empty_text_fails:
  "JSON_parse example_platform (Buffer_toString (Buffer_concat [])) =
     Inl (SyntaxError ''Unexpected end of JSON input'')"
  by (simp add: example_platform_def Buffer_toString_def Buffer_concat_def bad_token_text_def)

text \<open>
  C1, as the code has it. The handler of \<open>end\<close> calls the callback with the response
  object in every case: its status, the headers of the response, the normalized type and
  a body, whether the error is \<open>null\<close> or not; and the error is not \<open>null\<close> when the
  status is an error status. Only the handler of the transport's \<open>error\<close> event calls
  the callback with the error alone.
\<close>

theorem response_delivered_with_error:
  "(\<exists>err body.
      on_end P S opts statusCode headers chunks =
        Callback err
          (Some \<lparr>res_status = statusCode, res_headers = headers,
                 res_type = removeParams (headerValue headers CONTENT_TYPE_HEADER),
                 res_body = body\<rparr>)
      \<and> (isError S statusCode \<longrightarrow> err \<noteq> None))
   \<and> on_error e = Callback (Some e) None"
  by (simp add: on_end_def on_error_def Let_def split: sum.split)

theorem response_delivered_with_error_witness:
  "on_end example_platform example_status example_options 404 [] [] =
     Callback (Some (StatusError 404 ''[GET http://example.com:80/status]''))
       (Some \<lparr>res_status = 404, res_headers = [], res_type = None, res_body = VBuffer []\<rparr>)"
proof -
  from response_delivered_with_error
    [of example_platform example_status example_options 404 "[]" "[]" "TransportError []"]
  obtain err body where
    "on_end example_platform example_status example_options 404 [] [] =
       Callback err
         (Some \<lparr>res_status = 404, res_headers = [],
                res_type = removeParams (headerValue [] CONTENT_TYPE_HEADER),
                res_body = body\<rparr>)"
    and "isError example_status 404 \<longrightarrow> err \<noteq> None"
    by blast
  then show ?thesis
    by (simp add: on_end_def Let_def example_status_def removeParams_def parseBody_def
        parseError_def Buffer_concat_def example_message JSON_MEDIA_TYPE_def)
qed

text \<open>
  C1 as stated fails on a response with status 418 and a text body: the callback receives
  the error and, in the same call, the body, the type and the headers.
\<close>

theorem error_and_response_body_together:
  "on_end example_platform example_status example_options 418
     [(''content-type'', ''text/plain'')] [''tea'', ''pot''] =
   Callback (Some (StatusError 418 ''[GET http://example.com:80/status]''))
     (Some \<lparr>res_status = 418, res_headers = [(''content-type'', ''text/plain'')],
            res_type = Some ''text/plain'', res_body = VString ''teapot''\<rparr>)"
  by (simp add: on_end_def Let_def example_message example_status_def removeParams_def
      CONTENT_TYPE_HEADER_def toLowerCase_def lower_char_def parseBody_def
      JSON_MEDIA_TYPE_def startsWith_def endsWith_def Buffer_concat_def Buffer_toString_def
      parseError_def)

text \<open>
  C2, what the code does. For a status with no content the body is \<open>null\<close>, and
  \<open>_parseBody\<close> is still called on it: when the normalized type is the JSON type, or
  starts with \<open>text/\<close>, or ends with \<open>+xml\<close>, \<open>body.toString()\<close> throws on
  \<open>null\<close>, and the callback receives a parse error, not a success.
\<close>

theorem no_content_body_is_parsed:
  assumes "noContent S statusCode"
    and "removeParams (headerValue headers CONTENT_TYPE_HEADER) = Some t"
    and "t = JSON_MEDIA_TYPE \<or> startsWith t ''text/'' \<or> endsWith t ''+xml''"
  shows "on_end P S opts statusCode headers chunks =
     Callback
       (Some (Error (makeMessage opts (Some (''Parse Error: '' @
          exn_message (cannot_read ''toString'' ''null''))))))
       (Some \<lparr>res_status = statusCode, res_headers = headers, res_type = Some t,
              res_body = VNull\<rparr>)"
proof -
  have "t \<noteq> []"
    using assms(3) by (auto simp: startsWith_def endsWith_def JSON_MEDIA_TYPE_def)
  with assms show ?thesis
    by (auto simp: on_end_def parseBody_def Let_def)
qed

theorem no_content_body_is_parsed_witness:
  "on_end example_platform example_status example_options 204
     [(''content-type'', ''application/json'')] [] =
   Callback
     (Some (Error (''[GET http://example.com:80/status] Parse Error: Cannot read property ''
                   @ apostrophe @ ''toString'' @ apostrophe @ '' of null'')))
     (Some \<lparr>res_status = 204, res_headers = [(''content-type'', ''application/json'')],
            res_type = Some ''application/json'', res_body = VNull\<rparr>)"
proof -
  have n: "noContent example_status 204"
    by (simp add: example_status_def)
  have t: "removeParams (headerValue [(''content-type'', ''application/json'')]
      CONTENT_TYPE_HEADER) = Some ''application/json''"
    by (simp add: removeParams_def CONTENT_TYPE_HEADER_def toLowerCase_def lower_char_def)
  have j: "''application/json'' = JSON_MEDIA_TYPE \<or> startsWith ''application/json'' ''text/''
      \<or> endsWith ''application/json'' ''+xml''"
    by (simp add: JSON_MEDIA_TYPE_def)
  show ?thesis
    using no_content_body_is_parsed [OF n t j, of example_platform example_options "[]"]
    by (simp add: example_message cannot_read_def)
qed

text \<open>
  C3, what the code does. Let the status be an error status, the normalized type the JSON
  type, and the parsed body an object with no \<open>error_description\<close> and with an
  \<open>error\<close> object that has a non-empty \<open>message\<close>. Then \<open>_parseError\<close> throws a
  \<open>ReferenceError\<close> where it calls \<open>callback\<close>, the \<open>catch\<close> block makes a parse error
  of it, and the failure carries neither the status code nor the message of the body.
\<close>

theorem error_message_extraction_throws:
  assumes type: "removeParams (headerValue headers CONTENT_TYPE_HEADER) = Some JSON_MEDIA_TYPE"
    and status: "\<not> noContent S statusCode" "isError S statusCode"
    and parsed: "JSON_parse P (Buffer_toString (Buffer_concat chunks)) = Inr (VObject kvs)"
    and no_description: "map_of kvs ''error_description'' = None"
    and error: "map_of kvs ''error'' = Some (VObject ekvs)"
    and msg: "map_of ekvs ''message'' = Some (VString msg)" "msg \<noteq> []"
  shows "on_end P S opts statusCode headers chunks =
     Callback
       (Some (Error (makeMessage opts (Some ''Parse Error: callback is not defined''))))
       (Some \<lparr>res_status = statusCode, res_headers = headers,
              res_type = Some JSON_MEDIA_TYPE, res_body = VObject kvs\<rparr>)"
proof -
  have "parseError (Some JSON_MEDIA_TYPE) (VObject kvs) = Inl callback_unbound"
    by (simp add: parseError_def parseError_error_def and_message_def no_description error msg)
  then show ?thesis
    by (simp add: on_end_def Let_def type status parseBody_def parsed callback_unbound_def)
qed

theorem error_message_extraction_throws_witness:
  "on_end example_platform example_status example_options 401
     [(''content-type'', ''application/json'')] [bad_token_text] =
   Callback
     (Some (Error ''[GET http://example.com:80/status] Parse Error: callback is not defined''))
     (Some \<lparr>res_status = 401, res_headers = [(''content-type'', ''application/json'')],
            res_type = Some ''application/json'', res_body = bad_token_body\<rparr>)"
proof -
  have s: "\<not> noContent example_status 401" "isError example_status 401"
    by (simp_all add: example_status_def)
  have p: "JSON_parse example_platform (Buffer_toString (Buffer_concat [bad_token_text])) =
      Inr (VObject [(''error'', VObject [(''message'', VString ''bad token'')])])"
    by (simp add: example_platform_def Buffer_toString_def Buffer_concat_def
        bad_token_body_def)
  have d: "map_of [(''error'', VObject [(''message'', VString ''bad token'')])]
      ''error_description'' = None"
    by simp
  have e: "map_of [(''error'', VObject [(''message'', VString ''bad token'')])] ''error'' =
      Some (VObject [(''message'', VString ''bad token'')])"
    by simp
  have m: "map_of [(''message'', VString ''bad token'')] ''message'' = Some (VString ''bad token'')"
    "''bad token'' \<noteq> []"
    by simp_all
  show ?thesis
    using error_message_extraction_throws [OF content_type_json s p d e m, of example_options]
    by (simp add: example_message bad_token_body_def JSON_MEDIA_TYPE_def)
qed

text \<open>
  C4, what the code does. The handler does not look at the method. For a \<open>HEAD\<close>
  request and a status that has content, a response of the JSON type has its buffered
  bytes parsed, and a text that \<open>JSON.parse\<close> rejects (the empty text of a response
  with no body) gives a parse error; a response of another type and no error status is a
  success whose body is the buffered bytes, as a string or a \<open>Buffer\<close>, not \<open>null\<close>.
\<close>

theorem head_response_body_is_parsed:
  assumes head: "opt_method opts = ''HEAD''"
    and status: "\<not> noContent S statusCode"
    and type: "removeParams (headerValue headers CONTENT_TYPE_HEADER) = Some t"
  shows "(t = JSON_MEDIA_TYPE \<longrightarrow>
          JSON_parse P (Buffer_toString (Buffer_concat chunks)) = Inl e \<longrightarrow>
          on_end P S opts statusCode headers chunks =
            Callback
              (Some (Error (makeMessage opts (Some (''Parse Error: '' @ exn_message e)))))
              (Some \<lparr>res_status = statusCode, res_headers = headers, res_type = Some t,
                     res_body = VBuffer (Buffer_concat chunks)\<rparr>))
       \<and> (t \<noteq> JSON_MEDIA_TYPE \<longrightarrow> \<not> isError S statusCode \<longrightarrow>
          on_end P S opts statusCode headers chunks =
            Callback None
              (Some \<lparr>res_status = statusCode, res_headers = headers, res_type = Some t,
                     res_body =
                       (if t \<noteq> [] \<and> (startsWith t ''text/'' \<or> endsWith t ''+xml'')
                        then VString (Buffer_toString (Buffer_concat chunks))
                        else VBuffer (Buffer_concat chunks))\<rparr>))"
  by (simp add: on_end_def Let_def type status parseBody_def)

theorem head_response_body_is_parsed_witness:
  "on_end example_platform example_status
     (make_options example_service ''HEAD'' (Some ''status'') 0) 200
     [(''content-type'', ''application/json'')] [] =
   Callback
     (Some (Error ''[HEAD http://example.com:80/status] Parse Error: Unexpected end of JSON input''))
     (Some \<lparr>res_status = 200, res_headers = [(''content-type'', ''application/json'')],
            res_type = Some ''application/json'', res_body = VBuffer []\<rparr>)
   \<and> on_end example_platform example_status
     (make_options example_service ''HEAD'' (Some ''status'') 0) 200
     [(''content-type'', ''text/plain'')] [] =
   Callback None
     (Some \<lparr>res_status = 200, res_headers = [(''content-type'', ''text/plain'')],
            res_type = Some ''text/plain'', res_body = VString []\<rparr>)"
proof -
  let ?opts = "make_options example_service ''HEAD'' (Some ''status'') 0"
  have h: "opt_method ?opts = ''HEAD''"
    by (simp add: make_options_def)
  have s: "\<not> noContent example_status 200" "\<not> isError example_status 200"
    by (simp_all add: example_status_def)
  have m: "makeMessage ?opts (Some (''Parse Error: '' @ ''Unexpected end of JSON input'')) =
      ''[HEAD http://example.com:80/status] Parse Error: Unexpected end of JSON input''"
    by (simp add: makeMessage_def make_options_def example_service_def Number_toString.simps)
  have t: "''text/plain'' \<noteq> JSON_MEDIA_TYPE" "startsWith ''text/plain'' ''text/''"
    by (simp_all add: JSON_MEDIA_TYPE_def startsWith_def)
  show ?thesis
    using head_response_body_is_parsed [OF h s(1) content_type_json,
        of example_platform "[]" "SyntaxError ''Unexpected end of JSON input''"]
      head_response_body_is_parsed [OF h s(1) content_type_text, of example_platform "[]"]
      empty_text_fails m s(2) t
    by (simp add: JSON_MEDIA_TYPE_def Buffer_concat_def Buffer_toString_def)
qed

text \<open>
  C6. When the normalized type is the JSON type and \<open>JSON.parse\<close> throws on the text
  of the buffered body, as it does on the empty text and on malformed JSON, the callback
  receives a parse error, whatever the status: the error of an error status does not
  replace it, and a status 200 is no success. (For a status with no content the body is
  \<open>null\<close>, and the parse error is the one of \<open>body.toString()\<close>.)
\<close>

theorem json_parse_failure_precedes_status:
  assumes type: "removeParams (headerValue headers CONTENT_TYPE_HEADER) = Some JSON_MEDIA_TYPE"
    and fails: "JSON_parse P (Buffer_toString (Buffer_concat chunks)) = Inl e"
  shows "on_end P S opts statusCode headers chunks =
     Callback
       (Some (Error (makeMessage opts (Some (''Parse Error: '' @
          exn_message (if noContent S statusCode then cannot_read ''toString'' ''null''
                       else e))))))
       (Some \<lparr>res_status = statusCode, res_headers = headers,
              res_type = Some JSON_MEDIA_TYPE,
              res_body = (if noContent S statusCode then VNull
                          else VBuffer (Buffer_concat chunks))\<rparr>)"
  using fails by (simp add: on_end_def type parseBody_def Let_def)

theorem json_parse_failure_precedes_status_witness:
  "on_end example_platform example_status example_options 200
     [(''Content-Type'', ''application/json; charset=utf-8'')] [] =
   Callback
     (Some (Error ''[GET http://example.com:80/status] Parse Error: Unexpected end of JSON input''))
     (Some \<lparr>res_status = 200,
            res_headers = [(''Content-Type'', ''application/json; charset=utf-8'')],
            res_type = Some ''application/json'', res_body = VBuffer []\<rparr>)"
proof -
  have t: "removeParams (headerValue [(''Content-Type'', ''application/json; charset=utf-8'')]
      CONTENT_TYPE_HEADER) = Some JSON_MEDIA_TYPE"
    by (simp add: removeParams_def CONTENT_TYPE_HEADER_def JSON_MEDIA_TYPE_def
        toLowerCase_def lower_char_def substring0_def)
  show ?thesis
    using json_parse_failure_precedes_status
        [OF t empty_text_fails, of example_status example_options 200]
    by (simp add: example_message example_status_def JSON_MEDIA_TYPE_def Buffer_concat_def)
qed

section \<open>Failures of the request method\<close>

lemma lower_content_type: "toLowerCase CONTENT_TYPE_HEADER = CONTENT_TYPE_HEADER"
  by (simp add: CONTENT_TYPE_HEADER_def toLowerCase_def lower_char_def)

lemma lower_content_length: "toLowerCase CONTENT_LENGTH_HEADER = CONTENT_LENGTH_HEADER"
  by (simp add: CONTENT_LENGTH_HEADER_def toLowerCase_def lower_char_def)

lemma content_headers_differ: "CONTENT_TYPE_HEADER \<noteq> CONTENT_LENGTH_HEADER"
  by (simp add: CONTENT_TYPE_HEADER_def CONTENT_LENGTH_HEADER_def)

lemma set_property_new:
  "headerValue hs name = None \<Longrightarrow> toLowerCase name = name \<Longrightarrow>
   set_property hs name v = hs @ [(name, v)]"
  by (induction hs) (auto split: if_splits)

lemma headerValue_append:
  "headerValue (hs @ hs') name =
     (case headerValue hs name of None \<Rightarrow> headerValue hs' name | Some v \<Rightarrow> Some v)"
  by (induction hs) auto

text \<open>
  C5, as the code has it. Write \<open>type\<close> for the declared content type of the request.
  A body that is an object and no \<open>Buffer\<close>, with a declared type other than the two
  media types and \<open>null\<close>, fails before \<open>client.request\<close> is called. A body that is
  not \<open>null\<close> and neither an object nor a string fails after \<open>client.request\<close> has been
  called, and before anything is written to the request or the request is ended.
\<close>

theorem unsupported_body_failures_and_transport:
  "(isObject data \<and> \<not> isBuffer data \<and>
      null_or (headerValue (case headers of Some a \<Rightarrow> objs st a | None \<Rightarrow> [])
                 CONTENT_TYPE_HEADER) = type \<and>
      type \<noteq> VString JSON_MEDIA_TYPE \<and> type \<noteq> VString FORM_MEDIA_TYPE \<and> type \<noteq> VNull
    \<longrightarrow> thrown (request P this st method path headers data) =
          Some (Unsuported_media_type type)
        \<and> calls (request P this st method path headers data) = [])
   \<and> (data \<noteq> VNull \<and> \<not> isObject data \<and> \<not> isString data
    \<longrightarrow> thrown (request P this st method path headers data) =
          Some (Expected_string_or_Buffer (typeof data))
        \<and> (\<exists>opts hs. calls (request P this st method path headers data) =
              [Client_request opts hs]))"
proof -
  have nb: "\<not> isObject data \<Longrightarrow> \<not> isBuffer data"
    by (cases data) (simp_all add: isObject_def)
  have nn: "isObject data \<Longrightarrow> data \<noteq> VNull"
    by (auto simp: isObject_def)
  have nc: "\<not> isString data \<Longrightarrow> set_content_length hs data = hs" for hs
    by (cases data) (simp_all add: set_content_length_def isString_def)
  show ?thesis
  proof (intro conjI impI)
    assume a: "isObject data \<and> \<not> isBuffer data \<and>
      null_or (headerValue (case headers of Some a \<Rightarrow> objs st a | None \<Rightarrow> [])
                 CONTENT_TYPE_HEADER) = type \<and>
      type \<noteq> VString JSON_MEDIA_TYPE \<and> type \<noteq> VString FORM_MEDIA_TYPE \<and> type \<noteq> VNull"
    then have ser: "serialize P (case headers of Some a \<Rightarrow> objs st a | None \<Rightarrow> []) data =
        Inl (Unsuported_media_type type)"
      by (auto simp: serialize_def Let_def)
    from a nn ser show "thrown (request P this st method path headers data) =
        Some (Unsuported_media_type type)"
      by (cases headers) (simp_all add: request_def Let_def new_object_def)
    from a nn ser show "calls (request P this st method path headers data) = []"
      by (cases headers) (simp_all add: request_def Let_def new_object_def)
  next
    assume b: "data \<noteq> VNull \<and> \<not> isObject data \<and> \<not> isString data"
    then have s: "serialize P hs data = Inr (hs, data)" for hs
      by (simp add: serialize_def)
    from b nb s nc
    show "thrown (request P this st method path headers data) =
        Some (Expected_string_or_Buffer (typeof data))"
      by (simp add: request_def Let_def)
    from b nb s nc
    show "\<exists>opts hs. calls (request P this st method path headers data) =
        [Client_request opts hs]"
      by (simp add: request_def Let_def)
  qed
qed

theorem unsupported_body_failures_and_transport_witness:
  "thrown (request example_platform example_service
       (empty_store\<lparr>objs := (objs empty_store)(0 := [(''Content-Type'', VString ''text/csv'')]),
                    fresh := 1\<rparr>)
       ''post'' (Some ''post'') (Some 0) a_is_1) =
     Some (Unsuported_media_type (VString ''text/csv''))
   \<and> calls (request example_platform example_service
       (empty_store\<lparr>objs := (objs empty_store)(0 := [(''Content-Type'', VString ''text/csv'')]),
                    fresh := 1\<rparr>)
       ''post'' (Some ''post'') (Some 0) a_is_1) = []
   \<and> thrown (request example_platform example_service empty_store
       ''post'' (Some ''post'') None (VBool True)) =
     Some (Expected_string_or_Buffer ''boolean'')"
proof -
  let ?st = "empty_store\<lparr>objs := (objs empty_store)(0 := [(''Content-Type'', VString ''text/csv'')]),
                    fresh := 1\<rparr>"
  have a: "isObject a_is_1 \<and> \<not> isBuffer a_is_1 \<and>
      null_or (headerValue (case Some 0 of Some a \<Rightarrow> objs ?st a | None \<Rightarrow> [])
                 CONTENT_TYPE_HEADER) = VString ''text/csv'' \<and>
      VString ''text/csv'' \<noteq> VString JSON_MEDIA_TYPE \<and>
      VString ''text/csv'' \<noteq> VString FORM_MEDIA_TYPE \<and> VString ''text/csv'' \<noteq> VNull"
    by (simp add: isObject_def a_is_1_def CONTENT_TYPE_HEADER_def toLowerCase_def
        lower_char_def JSON_MEDIA_TYPE_def FORM_MEDIA_TYPE_def)
  have b: "VBool True \<noteq> VNull \<and> \<not> isObject (VBool True) \<and> \<not> isString (VBool True)"
    by (simp add: isObject_def isString_def)
  show ?thesis
    using unsupported_body_failures_and_transport
        [of a_is_1 ?st "Some 0" "VString ''text/csv''" example_platform example_service
          "''post''" "Some ''post''"]
      unsupported_body_failures_and_transport
        [of "VBool True" empty_store None VNull example_platform example_service
          "''post''" "Some ''post''"]
      a b
    by simp
qed

text \<open>
  C5 as stated fails on a body that is a number: the exception is thrown after
  \<open>client.request\<close> has been called.
\<close>

theorem invalid_data_fails_after_transport_call:
  "thrown (request example_platform example_service empty_store
       ''post'' (Some ''post'') None (VNumber (Finite 42))) =
     Some (Expected_string_or_Buffer ''number'')
   \<and> calls (request example_platform example_service empty_store
       ''post'' (Some ''post'') None (VNumber (Finite 42))) =
     [Client_request
        \<lparr>opt_method = ''POST'', opt_protocol = ''http:'', opt_host = Some ''example.com'',
         opt_port = 80, opt_path = ''/post'', opt_headers = 0, opt_more = []\<rparr> []]"
  by (simp add: request_def Let_def serialize_def isObject_def isString_def
      set_content_length_def new_object_def empty_store_def make_options_def
      example_service_def toUpperCase_def upper_char_def)

section \<open>Headers set by the request method\<close>

lemma headerValue_set_property_other:
  "toLowerCase key \<noteq> name \<Longrightarrow> headerValue (set_property hs key v) name = headerValue hs name"
  by (induction hs) auto

lemma headerValue_set_property_new:
  assumes "headerValue hs name = None" and "toLowerCase name = name"
  shows "headerValue (set_property hs name v) name = Some v"
  using assms by (simp add: set_property_new headerValue_append)

lemma serialize_object:
  assumes "isObject data" and "\<not> isBuffer data"
    and "serialize P hs data = Inr (hs', d)"
  shows "\<exists>s. d = VString s \<and>
    headerValue hs' CONTENT_LENGTH_HEADER = headerValue hs CONTENT_LENGTH_HEADER"
  using assms
  by (auto simp: serialize_def Let_def headerValue_set_property_other lower_content_type
      content_headers_differ split: if_splits)

lemma serialize_other:
  "\<not> isObject data \<Longrightarrow> serialize P hs data = Inr (hs, data)"
  by (simp add: serialize_def)

lemma set_content_length_string:
  assumes "headerValue hs CONTENT_LENGTH_HEADER = None"
  shows "headerValue (set_content_length hs (VString s)) CONTENT_LENGTH_HEADER =
    Some (VNumber (Finite (of_nat (Buffer_byteLength s))))"
  using assms
  by (simp add: set_content_length_def headerValue_set_property_new lower_content_length)

text \<open>The calls of \<open>request\<close> when the body, after the \<open>switch\<close>, is a string.\<close>

lemma request_calls_string:
  assumes ser: "(if data \<noteq> VNull then serialize P hs data else Inr (hs, data)) =
      Inr (hs', VString s)"
    and nn: "data \<noteq> VNull"
    and st1: "objs st1 h = hs"
    and alloc: "(case headers of Some a \<Rightarrow> (st, a) | None \<Rightarrow> new_object st) = (st1, h)"
  shows "calls (request P this st method path headers data) =
     [Client_request (make_options this (toUpperCase method) path h)
        (set_content_length hs' (VString s)),
      Request_write (VString s), Request_end]"
  using ser nn st1 by (simp add: request_def Let_def alloc isString_def)

text \<open>
  C8, as the code has it. Let the body be a string, or an object that is no \<open>Buffer\<close>
  and is serialized without an exception, and let the headers have no entry that is
  \<open>content-length\<close> up to case. Then \<open>client.request\<close> is called with headers in
  which \<open>content-length\<close> is the byte length of the string that is written next.
\<close>

theorem content_length_set_for_string_body:
  assumes string: "data = VString s0 \<or> (isObject data \<and> \<not> isBuffer data)"
    and no_throw: "thrown (request P this st method path headers data) = None"
    and no_entry: "headerValue (case headers of Some a \<Rightarrow> objs st a | None \<Rightarrow> [])
        CONTENT_LENGTH_HEADER = None"
  shows "\<exists>opts hs s.
     calls (request P this st method path headers data) =
       [Client_request opts hs, Request_write (VString s), Request_end]
     \<and> headerValue hs CONTENT_LENGTH_HEADER =
         Some (VNumber (Finite (of_nat (Buffer_byteLength s))))"
proof -
  obtain st1 h where alloc:
    "(case headers of Some a \<Rightarrow> (st, a) | None \<Rightarrow> new_object st) = (st1, h)"
    by (cases "case headers of Some a \<Rightarrow> (st, a) | None \<Rightarrow> new_object st") auto
  let ?hs = "objs st1 h"
  have hs: "?hs = (case headers of Some a \<Rightarrow> objs st a | None \<Rightarrow> [])"
    using alloc by (cases headers) (auto simp: new_object_def)
  have nn: "data \<noteq> VNull"
    using string by (auto simp: isObject_def)
  obtain hs' s where ser: "serialize P ?hs data = Inr (hs', VString s)"
    and keep: "headerValue hs' CONTENT_LENGTH_HEADER = None"
  proof (cases "isObject data \<and> \<not> isBuffer data")
    case True
    show ?thesis
    proof (cases "serialize P ?hs data")
      case (Inl e)
      with nn have "thrown (request P this st method path headers data) = Some e"
        by (simp add: request_def Let_def alloc)
      with no_throw show ?thesis by simp
    next
      case (Inr r)
      obtain hs' d where r: "r = (hs', d)" by (cases r)
      from serialize_object [of data P ?hs hs' d] True Inr r
      obtain s where "d = VString s"
        "headerValue hs' CONTENT_LENGTH_HEADER = headerValue ?hs CONTENT_LENGTH_HEADER"
        by auto
      with Inr r no_entry hs that show ?thesis by simp
    qed
  next
    case False
    with string have d: "data = VString s0" and "\<not> isObject data"
      by (auto simp: isObject_def)
    then have "serialize P ?hs data = Inr (?hs, VString s0)"
      by (simp add: serialize_other)
    with no_entry hs that show ?thesis by simp
  qed
  from ser nn have "(if data \<noteq> VNull then serialize P ?hs data else Inr (?hs, data)) =
      Inr (hs', VString s)"
    by simp
  from request_calls_string [OF this nn refl alloc]
  have "calls (request P this st method path headers data) =
     [Client_request (make_options this (toUpperCase method) path h)
        (set_content_length hs' (VString s)),
      Request_write (VString s), Request_end]" .
  with set_content_length_string [OF keep] show ?thesis by blast
qed


theorem content_length_set_for_string_body_witness:
  "calls (request example_platform example_service empty_store
       ''post'' (Some ''post'') (Some 0) (VString ''hello'')) =
     [Client_request
        \<lparr>opt_method = ''POST'', opt_protocol = ''http:'', opt_host = Some ''example.com'',
         opt_port = 80, opt_path = ''/post'', opt_headers = 0, opt_more = []\<rparr>
        [(''content-length'', VNumber (Finite 5))],
      Request_write (VString ''hello''), Request_end]"
proof -
  let ?r = "request example_platform example_service empty_store
       ''post'' (Some ''post'') (Some 0) (VString ''hello'')"
  have c: "calls ?r =
     [Client_request
        \<lparr>opt_method = ''POST'', opt_protocol = ''http:'', opt_host = Some ''example.com'',
         opt_port = 80, opt_path = ''/post'', opt_headers = 0, opt_more = []\<rparr>
        [(''content-length'', VNumber (Finite 5))],
      Request_write (VString ''hello''), Request_end]"
    and t: "thrown ?r = None"
    by (simp_all add: request_def Let_def serialize_def isObject_def isString_def
        set_content_length_def empty_store_def CONTENT_LENGTH_HEADER_def
        Buffer_byteLength_def make_options_def example_service_def toUpperCase_def
        upper_char_def)
  have s: "VString ''hello'' = VString ''hello'' \<or>
      (isObject (VString ''hello'') \<and> \<not> isBuffer (VString ''hello''))"
    by simp
  have n: "headerValue (case Some 0 of Some a \<Rightarrow> objs empty_store a | None \<Rightarrow> [])
      CONTENT_LENGTH_HEADER = None"
    by (simp add: empty_store_def)
  from content_length_set_for_string_body [OF s t n]
  obtain opts hs s where "calls ?r = [Client_request opts hs, Request_write (VString s), Request_end]"
    and "headerValue hs CONTENT_LENGTH_HEADER =
      Some (VNumber (Finite (of_nat (Buffer_byteLength s))))"
    by blast
  with c show ?thesis by simp
qed

text \<open>
  C8 as stated fails on a body of raw bytes: the test is \<open>util.isString(data)\<close>, and
  a \<open>Buffer\<close> is sent with the headers as they were.
\<close>

theorem buffer_body_gets_no_content_length:
  "calls (request example_platform example_service empty_store
       ''post'' (Some ''post'') (Some 0) (VBuffer ''hello'')) =
     [Client_request
        \<lparr>opt_method = ''POST'', opt_protocol = ''http:'', opt_host = Some ''example.com'',
         opt_port = 80, opt_path = ''/post'', opt_headers = 0, opt_more = []\<rparr> [],
      Request_write (VBuffer ''hello''), Request_end]
   \<and> objs (store_after (request example_platform example_service empty_store
       ''post'' (Some ''post'') (Some 0) (VBuffer ''hello''))) 0 = []"
  by (simp add: request_def Let_def serialize_def isObject_def isString_def
      set_content_length_def empty_store_def make_options_def example_service_def
      toUpperCase_def upper_char_def)

text \<open>
  C10, as the code has it. Let the body be an object that is no \<open>Buffer\<close> and the
  caller's headers object, at address \<open>a\<close>, have no entry that is \<open>content-type\<close> up
  to case. Then \<open>request\<close> throws nothing and writes to the caller's object itself:
  afterwards it is the object of before followed by \<open>content-type\<close>, and by
  \<open>content-length\<close> with the byte length of the JSON text when the object had no entry
  that is \<open>content-length\<close> up to case; an object with such an entry (not \<open>null\<close>)
  gets \<open>content-type\<close> only. No other object of the store changes.
\<close>

theorem caller_headers_mutated_in_place:
  assumes obj: "isObject data" "\<not> isBuffer data"
    and no_type: "headerValue (objs st a) CONTENT_TYPE_HEADER = None"
  shows "thrown (request P this st method path (Some a) data) = None
   \<and> (headerValue (objs st a) CONTENT_LENGTH_HEADER = None \<longrightarrow>
        objs (store_after (request P this st method path (Some a) data)) a =
          objs st a @
          [(CONTENT_TYPE_HEADER, VString JSON_MEDIA_TYPE),
           (CONTENT_LENGTH_HEADER,
            VNumber (Finite (of_nat (Buffer_byteLength (JSON_stringify P data)))))])
   \<and> (\<forall>v. headerValue (objs st a) CONTENT_LENGTH_HEADER = Some v \<and> v \<noteq> VNull \<longrightarrow>
        objs (store_after (request P this st method path (Some a) data)) a =
          objs st a @ [(CONTENT_TYPE_HEADER, VString JSON_MEDIA_TYPE)])
   \<and> (\<forall>b. b \<noteq> a \<longrightarrow>
        objs (store_after (request P this st method path (Some a) data)) b = objs st b)"
proof -
  let ?hs' = "objs st a @ [(CONTENT_TYPE_HEADER, VString JSON_MEDIA_TYPE)]"
  let ?s = "JSON_stringify P data"
  have nn: "data \<noteq> VNull"
    using obj by (auto simp: isObject_def)
  have ser: "serialize P (objs st a) data = Inr (?hs', VString ?s)"
    using obj no_type
    by (simp add: serialize_def Let_def set_property_new lower_content_type)
  have r: "request P this st method path (Some a) data =
      \<lparr>store_after = st\<lparr>objs := (objs st)(a := set_content_length ?hs' (VString ?s))\<rparr>,
       calls = [Client_request (make_options this (toUpperCase method) path a)
                  (set_content_length ?hs' (VString ?s)),
                Request_write (VString ?s), Request_end],
       thrown = None\<rparr>"
    using nn ser by (simp add: request_def Let_def isString_def)
  have cl: "headerValue ?hs' CONTENT_LENGTH_HEADER = headerValue (objs st a) CONTENT_LENGTH_HEADER"
    by (simp add: headerValue_append lower_content_type content_headers_differ
        split: option.split)
  have none: "headerValue (objs st a) CONTENT_LENGTH_HEADER = None \<Longrightarrow>
      set_content_length ?hs' (VString ?s) =
        ?hs' @ [(CONTENT_LENGTH_HEADER, VNumber (Finite (of_nat (Buffer_byteLength ?s))))]"
    using cl by (simp add: set_content_length_def set_property_new lower_content_length)
  have some: "headerValue (objs st a) CONTENT_LENGTH_HEADER = Some v \<Longrightarrow> v \<noteq> VNull \<Longrightarrow>
      set_content_length ?hs' (VString ?s) = ?hs'" for v
    using cl by (simp add: set_content_length_def)
  show ?thesis
    unfolding r using none some by simp
qed


theorem caller_headers_mutated_in_place_witness:
  "objs (store_after (request example_platform example_service
       (empty_store\<lparr>objs := (objs empty_store)(0 := [(''Accept'', VString ''*/*'')]),
                    fresh := 1\<rparr>)
       ''post'' (Some ''post'') (Some 0) a_is_1)) 0 =
     [(''Accept'', VString ''*/*''),
      (''content-type'', VString ''application/json''),
      (''content-length'', VNumber (Finite 7))]
   \<and> objs (store_after (request example_platform example_service
       (empty_store\<lparr>objs := (objs empty_store)(0 := [(''Accept'', VString ''*/*'')]),
                    fresh := 1\<rparr>)
       ''post'' (Some ''post'') (Some 0) a_is_1)) 1 = []
   \<and> objs (store_after (request example_platform example_service
       (empty_store\<lparr>objs := (objs empty_store)(0 := [(''CONTENT-LENGTH'', VNumber (Finite 7))]),
                    fresh := 1\<rparr>)
       ''post'' (Some ''post'') (Some 0) a_is_1)) 0 =
     [(''CONTENT-LENGTH'', VNumber (Finite 7)),
      (''content-type'', VString ''application/json'')]"
proof -
  let ?st = "empty_store\<lparr>objs := (objs empty_store)(0 := [(''Accept'', VString ''*/*'')]),
                    fresh := 1\<rparr>"
  let ?st' = "empty_store\<lparr>objs := (objs empty_store)(0 := [(''CONTENT-LENGTH'', VNumber (Finite 7))]),
                    fresh := 1\<rparr>"
  have o: "isObject a_is_1" "\<not> isBuffer a_is_1"
    by (simp_all add: isObject_def a_is_1_def)
  have t: "headerValue (objs ?st 0) CONTENT_TYPE_HEADER = None"
    "headerValue (objs ?st' 0) CONTENT_TYPE_HEADER = None"
    by (simp_all add: CONTENT_TYPE_HEADER_def toLowerCase_def lower_char_def)
  have l: "headerValue (objs ?st 0) CONTENT_LENGTH_HEADER = None"
    "headerValue (objs ?st' 0) CONTENT_LENGTH_HEADER = Some (VNumber (Finite 7))"
    by (simp_all add: CONTENT_LENGTH_HEADER_def toLowerCase_def lower_char_def)
  have s: "Buffer_byteLength (JSON_stringify example_platform a_is_1) = 7"
    by (simp add: example_platform_def Buffer_byteLength_def)
  have e: "objs ?st 1 = []"
    by (simp add: empty_store_def)
  show ?thesis
    using caller_headers_mutated_in_place
        [OF o t(1), of example_platform example_service "''post''" "Some ''post''"]
      caller_headers_mutated_in_place
        [OF o t(2), of example_platform example_service "''post''" "Some ''post''"]
      l s e
    by (simp add: CONTENT_TYPE_HEADER_def CONTENT_LENGTH_HEADER_def JSON_MEDIA_TYPE_def)
qed

text \<open>
  C10 as stated fails on headers that declare a content length and no content type: no
  computed \<open>content-length\<close> is added, and the caller's entry stays.
\<close>

theorem declared_content_length_is_kept:
  "objs (store_after (request example_platform example_service
       (empty_store\<lparr>objs := (objs empty_store)(0 := [(''Content-Length'', VString ''42'')]),
                    fresh := 1\<rparr>)
       ''post'' (Some ''post'') (Some 0) a_is_1)) 0 =
     [(''Content-Length'', VString ''42''),
      (''content-type'', VString ''application/json'')]
   \<and> Buffer_byteLength (JSON_stringify example_platform a_is_1) = 7"
  by (simp add: request_def Let_def serialize_def isObject_def isString_def a_is_1_def
      set_content_length_def empty_store_def make_options_def example_service_def
      toUpperCase_def upper_char_def toLowerCase_def lower_char_def
      CONTENT_TYPE_HEADER_def CONTENT_LENGTH_HEADER_def JSON_MEDIA_TYPE_def
      FORM_MEDIA_TYPE_def example_platform_def Buffer_byteLength_def)

section \<open>The first draft's handler\<close>

text \<open>
  Where the handler of the second draft loses the cases of C2, C3 and C4, the handler of
  the first draft has them. A status 204 is a success with no body and no type, before
  anything is parsed.
\<close>

lemma first_draft_no_content:
  "on_end1 P opts 204 headers chunks = Succeeded VNull None headers"
  by (simp add: on_end1_def)

text \<open>For a \<open>HEAD\<close> request the body is \<open>null\<close>, and nothing is parsed.\<close>

lemma first_draft_head:
  assumes "opt_method opts = ''HEAD''"
  shows "on_end1 P opts statusCode headers chunks =
     (if statusCode = 204 then Succeeded VNull None headers
      else if statusCode = 200 \<or> statusCode = 201 then
        Succeeded VNull (removeParams (headerValue headers CONTENT_TYPE_HEADER)) headers
      else Failed (httpError statusCode opts
             (VString ''The request was not successfully completed.'')))"
  using assms by (simp add: on_end1_def complete1_def Let_def)

text \<open>
  The message of an \<open>error\<close> object in a JSON body is the message of the failure, with
  the status code of the response.
\<close>

lemma first_draft_error_message:
  assumes "statusCode \<noteq> 204" and "opt_method opts \<noteq> ''HEAD''"
    and "removeParams (headerValue headers CONTENT_TYPE_HEADER) = Some JSON_MEDIA_TYPE"
    and "Buffer_toString (Buffer_concat chunks) \<noteq> []"
    and "JSON_parse P (Buffer_toString (Buffer_concat chunks)) = Inr (VObject kvs)"
    and "map_of kvs ''error_description'' = None"
    and "map_of kvs ''error'' = Some (VObject ekvs)"
    and "map_of ekvs ''message'' = Some (VString msg)" and "msg \<noteq> []"
  shows "on_end1 P opts statusCode headers chunks =
     Failed (httpError statusCode opts (VString msg))"
  using assms
  by (simp add: on_end1_def Let_def JSON_MEDIA_TYPE_def json_body1_def json_error1_def
      and_message_def)

lemma first_draft_bad_token:
  "on_end1 example_platform example_options 401
     [(''content-type'', ''application/json'')] [bad_token_text] =
   Failed (HttpError 401 ''[GET http://example.com:80/status]'' (VString ''bad token''))"
proof -
  have s: "(401::nat) \<noteq> 204"
    by simp
  have h: "opt_method example_options \<noteq> ''HEAD''"
    by (simp add: example_options_def make_options_def)
  have n: "Buffer_toString (Buffer_concat [bad_token_text]) \<noteq> []"
    by (simp add: Buffer_toString_def Buffer_concat_def bad_token_text_def)
  have p: "JSON_parse example_platform (Buffer_toString (Buffer_concat [bad_token_text])) =
      Inr (VObject [(''error'', VObject [(''message'', VString ''bad token'')])])"
    by (simp add: example_platform_def Buffer_toString_def Buffer_concat_def
        bad_token_body_def)
  have d: "map_of [(''error'', VObject [(''message'', VString ''bad token'')])]
      ''error_description'' = None"
    by simp
  have e: "map_of [(''error'', VObject [(''message'', VString ''bad token'')])] ''error'' =
      Some (VObject [(''message'', VString ''bad token'')])"
    by simp
  have m: "map_of [(''message'', VString ''bad token'')] ''message'' = Some (VString ''bad token'')"
    "''bad token'' \<noteq> []"
    by simp_all
  show ?thesis
    using first_draft_error_message [OF s h content_type_json n p d e m]
    by (simp add: httpError_def example_message)
qed

end
